theory Spec2Isabelle
  imports Complex_Main "HOL-Library.Sublist"
begin

section \<open>JavaScript values used by the backend\<close>

text \<open>
  Strings are byte lists (a text is its UTF-8 encoding). A value that may be
  \<^verbatim>\<open>undefined\<close> is an option. A template literal prints \<^verbatim>\<open>undefined\<close> for
  a missing value.
\<close>

definition tmpl :: "string option \<Rightarrow> string" where
  "tmpl v = (case v of None \<Rightarrow> ''undefined'' | Some s \<Rightarrow> s)"

text \<open>Truthiness of a string that may be undefined: the empty string is falsy.\<close>

definition truthy :: "string option \<Rightarrow> bool" where
  "truthy v = (case v of None \<Rightarrow> False | Some s \<Rightarrow> s \<noteq> [])"

text \<open>\<^verbatim>\<open>String.prototype.includes\<close>: the argument occurs as a contiguous substring.\<close>

fun str_includes :: "string \<Rightarrow> string \<Rightarrow> bool" where
  "str_includes [] sub = (sub = [])"
| "str_includes (c # cs) sub = (prefix sub (c # cs) \<or> str_includes cs sub)"

text \<open>\<^verbatim>\<open>String.prototype.split\<close> with a one-character separator.\<close>

fun split_on :: "char \<Rightarrow> string \<Rightarrow> string list" where
  "split_on d [] = [[]]"
| "split_on d (c # cs) =
     (if c = d then [] # split_on d cs
      else (case split_on d cs of p # ps \<Rightarrow> (c # p) # ps | [] \<Rightarrow> [[c]]))"

text \<open>\<^verbatim>\<open>String.prototype.replace\<close> with a string pattern: the first occurrence only.\<close>

fun str_replace :: "string \<Rightarrow> string \<Rightarrow> string \<Rightarrow> string" where
  "str_replace [] pat rep = (if pat = [] then rep else [])"
| "str_replace (c # cs) pat rep =
     (if prefix pat (c # cs) then rep @ drop (length pat) (c # cs)
      else c # str_replace cs pat rep)"

subsection \<open>Numbers\<close>

text \<open>
  A JavaScript number is NaN, an infinity or a finite value. Finite values are exact
  rationals here: the rounding of IEEE doubles is not modelled.
\<close>

datatype js_number = NaN | Finite rat | PosInfinity | NegInfinity

text \<open>The relational operators \<^verbatim>\<open><\<close> and \<^verbatim>\<open><=\<close>: every comparison with NaN is false.\<close>

fun js_lt :: "js_number \<Rightarrow> js_number \<Rightarrow> bool" where
  "js_lt (Finite x) (Finite y) = (x < y)"
| "js_lt NegInfinity (Finite y) = True"
| "js_lt NegInfinity PosInfinity = True"
| "js_lt (Finite x) PosInfinity = True"
| "js_lt _ _ = False"


fun js_negate :: "js_number \<Rightarrow> js_number" where
  "js_negate NaN = NaN"
| "js_negate (Finite x) = Finite (- x)"
| "js_negate PosInfinity = NegInfinity"
| "js_negate NegInfinity = PosInfinity"

definition is_digit :: "char \<Rightarrow> bool" where
  "is_digit c = (48 \<le> (of_char c :: nat) \<and> (of_char c :: nat) \<le> 57)"

definition is_js_space :: "char \<Rightarrow> bool" where
  "is_js_space c = ((of_char c :: nat) \<in> {9, 10, 11, 12, 13, 32})"

definition digits_value :: "string \<Rightarrow> nat" where
  "digits_value ds = foldl (\<lambda>n c. 10 * n + (of_char c - 48)) 0 ds"

text \<open>The exponent part of a decimal literal: 0 when there is none.\<close>

definition parse_exponent :: "string \<Rightarrow> int" where
  "parse_exponent s =
     (case s of
        [] \<Rightarrow> 0
      | e # rest \<Rightarrow>
          if e = CHR ''e'' \<or> e = CHR ''E'' then
            (case rest of
               [] \<Rightarrow> 0
             | sg # ds \<Rightarrow>
                 if sg = CHR ''-'' \<and> takeWhile is_digit ds \<noteq> []
                   then - int (digits_value (takeWhile is_digit ds))
                 else if sg = CHR ''+'' \<and> takeWhile is_digit ds \<noteq> []
                   then int (digits_value (takeWhile is_digit ds))
                 else int (digits_value (takeWhile is_digit rest)))
          else 0)"

definition scale10 :: "rat \<Rightarrow> int \<Rightarrow> rat" where
  "scale10 x e = (if 0 \<le> e then x * 10 ^ nat e else x / 10 ^ nat (- e))"

definition parse_unsigned :: "string \<Rightarrow> js_number" where
  "parse_unsigned s =
     (if prefix ''Infinity'' s then PosInfinity
      else
        let ip = takeWhile is_digit s;
            r1 = dropWhile is_digit s;
            dot = (case r1 of [] \<Rightarrow> False | c # _ \<Rightarrow> c = CHR ''.'');
            fp = (if dot then takeWhile is_digit (tl r1) else []);
            r2 = (if dot then dropWhile is_digit (tl r1) else r1)
        in if ip = [] \<and> fp = [] then NaN
           else Finite (scale10
                  (of_nat (digits_value ip) + of_nat (digits_value fp) / 10 ^ length fp)
                  (parse_exponent r2)))"

text \<open>
  \<^verbatim>\<open>Number.parseFloat\<close>: leading white space is skipped, then the longest prefix
  that is a decimal literal is read; NaN when there is none.
\<close>

definition parseFloat :: "string \<Rightarrow> js_number" where
  "parseFloat s =
     (case dropWhile is_js_space s of
        [] \<Rightarrow> NaN
      | c # r \<Rightarrow>
          if c = CHR ''-'' then js_negate (parse_unsigned r)
          else if c = CHR ''+'' then parse_unsigned r
          else parse_unsigned (c # r))"

subsection \<open>Errors\<close>

text \<open>
  A thrown \<^verbatim>\<open>Error\<close>: its name, its message, and of its cause the two properties the
  program reads (\<^verbatim>\<open>cause.message\<close>, \<^verbatim>\<open>cause.status\<close>), each missing or present.
\<close>

record js_error =
  err_name :: string
  err_message :: string
  cause_message :: "string option"
  cause_status :: "nat option"

text \<open>\<^verbatim>\<open>new Error(m, { cause: new Error(c) })\<close>\<close>

definition new_Error :: "string \<Rightarrow> string \<Rightarrow> js_error" where
  "new_Error m c =
     \<lparr>err_name = ''Error'', err_message = m, cause_message = Some c, cause_status = None\<rparr>"

definition new_TypeError :: "string \<Rightarrow> js_error" where
  "new_TypeError m =
     \<lparr>err_name = ''TypeError'', err_message = m, cause_message = None, cause_status = None\<rparr>"

text \<open>
  The localisation function \<^verbatim>\<open>get(_)\<close> of svelte-i18n is a parameter of the model: it
  maps a message key and its values to the text shown.
\<close>

type_synonym i18n = "string \<Rightarrow> (string \<times> string) list \<Rightarrow> string"

section \<open>The Gitea backend (gitea.js)\<close>

subsection \<open>Data\<close>

record RepositoryInfo =
  r_service :: string
  r_label :: string
  r_owner :: string
  r_repo :: "string option"
  r_branch :: "string option"
  r_baseURL :: string
  r_databaseName :: string
  r_isSelfHosted :: bool
  r_treeBaseURL :: string
  r_blobBaseURL :: string

record ApiEndpointConfig =
  clientId :: string
  authURL :: string
  tokenURL :: string
  origin :: string
  restBaseURL :: string

text \<open>The \<^verbatim>\<open>backend\<close> object of the site configuration.\<close>

record backend_config =
  cfg_name :: string
  cfg_repo :: "string option"
  cfg_branch :: "string option"
  cfg_base_url :: "string option"
  cfg_auth_endpoint :: "string option"
  cfg_app_id :: "string option"
  cfg_api_root :: "string option"

record User =
  u_backendName :: "string option"
  u_name :: "string option"
  u_email :: "string option"
  u_token :: "string option"
  u_refreshToken :: "string option"

text \<open>An entry of the tree endpoint's response (\<^verbatim>\<open>PartialGitEntry\<close>).\<close>

record git_entry =
  entry_type :: string
  entry_path :: string
  entry_sha :: string
  entry_size :: nat

record BaseFileListItem =
  item_path :: string
  item_sha :: string
  item_size :: "nat option"
  item_name :: string
  item_type :: "string option"

text \<open>
  An item of the bulk endpoint's response (\<^verbatim>\<open>PartialContentsListItem\<close>); a null item
  is \<open>None\<close>.
\<close>

record contents_item =
  content :: "string option"
  encoding :: "string option"

record file_contents =
  fc_sha :: string
  fc_size :: nat
  fc_text :: string

text \<open>The action of a change is one of create, update, delete and move.\<close>

record FileChange =
  change_action :: string
  change_path :: string
  previousPath :: "string option"
  change_data :: "string option"

text \<open>An element of \<^verbatim>\<open>files\<close> in the body of the commit request.\<close>

record file_operation =
  operation :: string
  op_path :: string
  op_content :: string
  from_path :: "string option"

record commit_body =
  body_branch :: "string option"
  body_author :: "string option \<times> string option"
  body_committer :: "string option \<times> string option"
  body_dates :: "string \<times> string"
  body_message :: string
  body_files :: "file_operation list"

record repo_response =
  permissions_pull :: "bool option"
  default_branch :: "string option"

record tree_response =
  tree :: "git_entry list"
  truncated :: bool

subsection \<open>Requests and the provider\<close>

text \<open>
  A call of \<^verbatim>\<open>fetchAPI\<close>, by endpoint, with the parts of the path and the body the
  backend fills in.
\<close>

datatype request =
    GetVersion
  | GetRepo string string
  | GetBranch string string string
  | GetTree string string string nat
  | GetSettingsApi
  | PostFileContents string string string "string list"
  | PostContents string string commit_body

text \<open>
  The provider answers each call with a response of the endpoint's shape or with an
  error (the rejection of \<^verbatim>\<open>fetchAPI\<close>). An answer may depend on the calls made so
  far, which every endpoint receives first.
\<close>

record server =
  version_endpoint :: "request list \<Rightarrow> js_error + string"
  repo_endpoint :: "request list \<Rightarrow> string \<Rightarrow> string \<Rightarrow> js_error + repo_response"
  branch_endpoint ::
    "request list \<Rightarrow> string \<Rightarrow> string \<Rightarrow> string \<Rightarrow> js_error + (string \<times> string)"
  tree_endpoint ::
    "request list \<Rightarrow> string \<Rightarrow> string \<Rightarrow> string \<Rightarrow> nat \<Rightarrow> js_error + tree_response"
  settings_endpoint :: "request list \<Rightarrow> js_error + nat option"
  file_contents_endpoint ::
    "request list \<Rightarrow> string \<Rightarrow> string \<Rightarrow> string \<Rightarrow> string list
      \<Rightarrow> js_error + contents_item option list"
  contents_endpoint :: "request list \<Rightarrow> string \<Rightarrow> string \<Rightarrow> commit_body \<Rightarrow> js_error + string"

text \<open>
  The module's state: its two singletons and its response cache, the stores it reads
  and writes, and two logs kept for the proofs (every value set on
  \<^verbatim>\<open>dataLoadedProgress\<close>, every call of \<^verbatim>\<open>fetchAPI\<close>), oldest first.
\<close>

record gitea_state =
  repository :: RepositoryInfo
  apiConfig :: ApiEndpointConfig
  repositoryResponseCache :: "repo_response option"
  dataLoadedProgress :: "js_number option"
  progressLog :: "js_number option list"
  requests :: "request list"
  user :: "User option"

definition log_request :: "request \<Rightarrow> gitea_state \<Rightarrow> gitea_state" where
  "log_request r s = s\<lparr>requests := requests s @ [r]\<rparr>"

definition set_progress :: "js_number option \<Rightarrow> gitea_state \<Rightarrow> gitea_state" where
  "set_progress v s = s\<lparr>dataLoadedProgress := v, progressLog := progressLog s @ [v]\<rparr>"

subsection \<open>Constants\<close>

definition backendName :: string where
  "backendName = ''gitea''"

definition label :: string where
  "label = ''Gitea''"

definition DEFAULT_API_ROOT :: string where
  "DEFAULT_API_ROOT = ''https://gitea.com/api/v1''"

definition DEFAULT_AUTH_ROOT :: string where
  "DEFAULT_AUTH_ROOT = ''https://gitea.com''"

definition DEFAULT_AUTH_PATH :: string where
  "DEFAULT_AUTH_PATH = ''login/oauth/authorize''"

definition MIN_GITEA_VERSION :: js_number where
  "MIN_GITEA_VERSION = Finite (124 / 100)"

subsection \<open>init\<close>

definition getBaseURLs :: "string \<Rightarrow> string option \<Rightarrow> string \<times> string" where
  "getBaseURLs baseURL branch =
     (if truthy branch then baseURL @ ''/src/branch/'' @ tmpl branch else baseURL,
      if truthy branch then baseURL @ ''/src/branch/'' @ tmpl branch else [])"

text \<open>
  \<^verbatim>\<open>stripSlashes\<close> (of the package @sveltia/utils) and the \<^verbatim>\<open>origin\<close> of
  \<^verbatim>\<open>new URL(x)\<close> are parameters: \<open>urlOrigin x = None\<close> when the URL constructor
  throws. The site configuration is an argument; \<open>None\<close> is a configuration without a
  backend. The line printed to the console in developer mode is left out.
\<close>

definition init ::
  "(string \<Rightarrow> string) \<Rightarrow> (string \<Rightarrow> string option) \<Rightarrow> backend_config option \<Rightarrow> gitea_state
    \<Rightarrow> (js_error + RepositoryInfo option) \<times> gitea_state" where
  "init stripSlashes urlOrigin siteConfig s =
     (case siteConfig of
        None \<Rightarrow> (Inr None, s)
      | Some backend \<Rightarrow>
          if cfg_name backend \<noteq> backendName then (Inr None, s)
          else
            let projectPath = cfg_repo backend;
                branch = cfg_branch backend;
                authRoot = (case cfg_base_url backend of None \<Rightarrow> DEFAULT_AUTH_ROOT | Some v \<Rightarrow> v);
                authPath =
                  (case cfg_auth_endpoint backend of None \<Rightarrow> DEFAULT_AUTH_PATH | Some v \<Rightarrow> v);
                clientId' = (case cfg_app_id backend of None \<Rightarrow> [] | Some v \<Rightarrow> v);
                restApiRoot =
                  (case cfg_api_root backend of None \<Rightarrow> DEFAULT_API_ROOT | Some v \<Rightarrow> v);
                authURL' = stripSlashes authRoot @ ''/'' @ stripSlashes authPath
            in case urlOrigin restApiRoot of
                 None \<Rightarrow> (Inl (new_TypeError ''Invalid URL''), s)
               | Some restApiOrigin \<Rightarrow>
                   (case projectPath of
                      None \<Rightarrow> (Inl (new_TypeError ''projectPath is undefined''), s)
                    | Some pp \<Rightarrow>
                        let parts = split_on CHR ''/'' pp;
                            owner = hd parts;
                            repo = (case tl parts of [] \<Rightarrow> None | x # _ \<Rightarrow> Some x);
                            baseURL = restApiOrigin @ ''/'' @ owner @ ''/'' @ tmpl repo;
                            repository' = (repository s)
                              \<lparr>r_service := backendName,
                               r_label := label,
                               r_owner := owner,
                               r_repo := repo,
                               r_branch := branch,
                               r_baseURL := baseURL,
                               r_databaseName := backendName @ '':'' @ owner @ ''/'' @ tmpl repo,
                               r_isSelfHosted := (restApiRoot \<noteq> DEFAULT_API_ROOT),
                               r_treeBaseURL := fst (getBaseURLs baseURL branch),
                               r_blobBaseURL := snd (getBaseURLs baseURL branch)\<rparr>;
                            apiConfig' = (apiConfig s)
                              \<lparr>clientId := clientId',
                               authURL := authURL',
                               tokenURL := str_replace authURL' ''/authorize'' ''/access_token'',
                               origin := restApiOrigin,
                               restBaseURL := restApiOrigin @ ''/api/v1''\<rparr>
                        in (Inr (Some repository'),
                            s\<lparr>repository := repository', apiConfig := apiConfig'\<rparr>)))"

subsection \<open>Version and access checks\<close>

definition checkGiteaVersion ::
  "i18n \<Rightarrow> server \<Rightarrow> gitea_state \<Rightarrow> (js_error + unit) \<times> gitea_state" where
  "checkGiteaVersion tr srv s =
     (let s1 = log_request GetVersion s in
      case version_endpoint srv (requests s) of
        Inl e \<Rightarrow> (Inl e, s1)
      | Inr version \<Rightarrow>
          if str_includes version ''+gitea-'' then
            (Inl (new_Error ''Unsupported Forgejo version''
                   (tr ''backend_unsupported_forgejo'' [])), s1)
          else if js_lt (parseFloat version) MIN_GITEA_VERSION then
            (Inl (new_Error ''Unsupported Gitea version''
                   (tr ''backend_unsupported_version''
                      [(''name'', label), (''version'', ''1.24'')])), s1)
          else (Inr (), s1))"

definition getRepositoryInfo ::
  "server \<Rightarrow> gitea_state \<Rightarrow> (js_error + repo_response) \<times> gitea_state" where
  "getRepositoryInfo srv s =
     (let owner = r_owner (repository s); repo = tmpl (r_repo (repository s)) in
      (repo_endpoint srv (requests s) owner repo, log_request (GetRepo owner repo) s))"

text \<open>
  \<^verbatim>\<open>repositoryResponseCache ??= await getRepositoryInfo()\<close>: the request is made only
  when the cache is empty, and a response fills the cache.
\<close>

definition cachedRepositoryInfo ::
  "server \<Rightarrow> gitea_state \<Rightarrow> (js_error + repo_response) \<times> gitea_state" where
  "cachedRepositoryInfo srv s =
     (case repositoryResponseCache s of
        Some c \<Rightarrow> (Inr c, s)
      | None \<Rightarrow>
          (case getRepositoryInfo srv s of
             (Inl e, s1) \<Rightarrow> (Inl e, s1)
           | (Inr r, s1) \<Rightarrow> (Inr r, s1\<lparr>repositoryResponseCache := Some r\<rparr>)))"

text \<open>
  The body of the \<^verbatim>\<open>try\<close> block, then the \<^verbatim>\<open>catch\<close> clause, which receives every
  error of the body, the one thrown for a missing \<^verbatim>\<open>pull\<close> permission included.
\<close>

definition checkRepositoryAccess ::
  "i18n \<Rightarrow> server \<Rightarrow> gitea_state \<Rightarrow> (js_error + unit) \<times> gitea_state" where
  "checkRepositoryAccess tr srv s =
     (let repo = tmpl (r_repo (repository s));
          body =
            (case cachedRepositoryInfo srv s of
               (Inl e, s1) \<Rightarrow> (Inl e, s1)
             | (Inr c, s1) \<Rightarrow>
                 if permissions_pull c \<noteq> Some True then
                   (Inl (new_Error ''Not a collaborator of the repository''
                          (tr ''repository_no_access'' [(''repo'', repo)])), s1)
                 else (Inr (), s1))
      in case body of
           (Inr u, s1) \<Rightarrow> (Inr u, s1)
         | (Inl error, s1) \<Rightarrow>
             if str_includes (err_message error) ''Not a collaborator'' then (Inl error, s1)
             else (Inl (new_Error ''Failed to check repository access''
                         (tr ''repository_not_found'' [(''repo'', repo)])), s1))"

definition fetchDefaultBranchName ::
  "i18n \<Rightarrow> server \<Rightarrow> gitea_state \<Rightarrow> (js_error + string) \<times> gitea_state" where
  "fetchDefaultBranchName tr srv s =
     (let repo = tmpl (r_repo (repository s));
          baseURL = r_baseURL (repository s);
          body =
            (case cachedRepositoryInfo srv s of
               (Inl e, s1) \<Rightarrow> (Inl e, s1)
             | (Inr c, s1) \<Rightarrow>
                 if \<not> truthy (default_branch c) then
                   (Inl (new_Error ''Failed to retrieve the default branch name.''
                          (tr ''repository_empty'' [(''repo'', repo)])), s1)
                 else
                   (Inr (tmpl (default_branch c)),
                    s1\<lparr>repository := (repository s1)
                         \<lparr>r_branch := default_branch c,
                          r_treeBaseURL := fst (getBaseURLs baseURL (default_branch c)),
                          r_blobBaseURL := snd (getBaseURLs baseURL (default_branch c))\<rparr>\<rparr>))
      in case body of
           (Inr b, s1) \<Rightarrow> (Inr b, s1)
         | (Inl error, s1) \<Rightarrow>
             (Inl (new_Error ''Failed to retrieve the default branch name.''
                    (tr ''repository_not_found'' [(''repo'', repo)])), s1))"

definition fetchLastCommit ::
  "i18n \<Rightarrow> server \<Rightarrow> gitea_state \<Rightarrow> (js_error + string \<times> string) \<times> gitea_state" where
  "fetchLastCommit tr srv s =
     (let owner = r_owner (repository s);
          repo = tmpl (r_repo (repository s));
          branch = tmpl (r_branch (repository s));
          s1 = log_request (GetBranch owner repo branch) s
      in case branch_endpoint srv (requests s) owner repo branch of
           Inr c \<Rightarrow> (Inr c, s1)
         | Inl error \<Rightarrow>
             (Inl (new_Error ''Failed to retrieve the last commit hash.''
                    (tr ''branch_not_found'' [(''repo'', repo), (''branch'', branch)])), s1))"

subsection \<open>File listing\<close>

text \<open>
  The loop of \<^verbatim>\<open>fetchFileList\<close>: one request per page, until a response is not
  truncated. A provider that never stops saying truncated keeps the loop running: the
  result is then \<open>None\<close>.
\<close>

partial_function (option) fetchFileList_loop ::
  "server \<Rightarrow> string \<Rightarrow> string \<Rightarrow> string \<Rightarrow> nat \<Rightarrow> git_entry list \<Rightarrow> gitea_state
    \<Rightarrow> ((js_error + git_entry list) \<times> gitea_state) option" where
  "fetchFileList_loop srv owner repo ref page gitEntries s =
     (let s1 = log_request (GetTree owner repo ref page) s in
      case tree_endpoint srv (requests s) owner repo ref page of
        Inl e \<Rightarrow> Some (Inl e, s1)
      | Inr result \<Rightarrow>
          if truncated result
          then fetchFileList_loop srv owner repo ref (page + 1) (gitEntries @ tree result) s1
          else Some (Inr (gitEntries @ tree result), s1))"

definition toFileListItem :: "(string \<Rightarrow> string) \<Rightarrow> git_entry \<Rightarrow> BaseFileListItem" where
  "toFileListItem basename e =
     \<lparr>item_path = entry_path e, item_sha = entry_sha e, item_size = Some (entry_size e),
      item_name = basename (entry_path e), item_type = None\<rparr>"

text \<open>
  \<open>basename\<close> stands for \<^verbatim>\<open>getPathInfo(path).basename\<close> of the package
  @sveltia/utils, a parameter of the model.
\<close>

definition fetchFileList ::
  "(string \<Rightarrow> string) \<Rightarrow> server \<Rightarrow> string option \<Rightarrow> gitea_state
    \<Rightarrow> ((js_error + BaseFileListItem list) \<times> gitea_state) option" where
  "fetchFileList basename srv lastHash s =
     (let owner = r_owner (repository s);
          repo = tmpl (r_repo (repository s));
          ref = (case lastHash of None \<Rightarrow> tmpl (r_branch (repository s)) | Some h \<Rightarrow> h)
      in case fetchFileList_loop srv owner repo ref 1 [] s of
           None \<Rightarrow> None
         | Some (Inl e, s1) \<Rightarrow> Some (Inl e, s1)
         | Some (Inr gitEntries, s1) \<Rightarrow>
             Some (Inr (map (toFileListItem basename)
                          (filter (\<lambda>e. entry_type e = ''blob'') gitEntries)), s1))"

subsection \<open>Base64\<close>

text \<open>
  Modelled from the spec: \<^verbatim>\<open>encodeBase64\<close> and \<^verbatim>\<open>decodeBase64\<close> belong to the package
  @sveltia/utils, which is not among the sources. The spec says that file text travels
  as base64; the two functions below are the standard base64 of RFC 4648 (alphabet
  A-Z a-z 0-9 + /, padding with =) over the bytes of the text. Decoding fails
  (\<open>None\<close>) on input that is not padded base64.
\<close>

definition b64_char :: "nat \<Rightarrow> char" where
  "b64_char n =
     (if n < 26 then char_of (n + 65)
      else if n < 52 then char_of (n + 71)
      else if n < 62 then char_of (n - 4)
      else if n = 62 then CHR ''+'' else CHR ''/'')"

definition b64_index :: "char \<Rightarrow> nat option" where
  "b64_index c =
     (let n = (of_char c :: nat) in
      if 65 \<le> n \<and> n \<le> 90 then Some (n - 65)
      else if 97 \<le> n \<and> n \<le> 122 then Some (n - 71)
      else if 48 \<le> n \<and> n \<le> 57 then Some (n + 4)
      else if n = 43 then Some 62
      else if n = 47 then Some 63
      else None)"

fun encodeBase64 :: "string \<Rightarrow> string" where
  "encodeBase64 [] = []"
| "encodeBase64 [a] =
     (let x = (of_char a :: nat) in
      [b64_char (x div 4), b64_char ((x mod 4) * 16), CHR ''='', CHR ''=''])"
| "encodeBase64 [a, b] =
     (let x = (of_char a :: nat); y = (of_char b :: nat) in
      [b64_char (x div 4), b64_char ((x mod 4) * 16 + y div 16),
       b64_char ((y mod 16) * 4), CHR ''=''])"
| "encodeBase64 (a # b # c # rest) =
     (let x = (of_char a :: nat); y = (of_char b :: nat); z = (of_char c :: nat) in
      [b64_char (x div 4), b64_char ((x mod 4) * 16 + y div 16),
       b64_char ((y mod 16) * 4 + z div 64), b64_char (z mod 64)] @ encodeBase64 rest)"

fun decodeBase64 :: "string \<Rightarrow> string option" where
  "decodeBase64 [] = Some []"
| "decodeBase64 (w # x # y # z # rest) =
     (if y = CHR ''='' \<and> z = CHR ''='' \<and> rest = [] then
        (case (b64_index w, b64_index x) of
           (Some p, Some q) \<Rightarrow> Some [char_of (p * 4 + q div 16)]
         | _ \<Rightarrow> None)
      else if z = CHR ''='' \<and> rest = [] then
        (case (b64_index w, b64_index x, b64_index y) of
           (Some p, Some q, Some r) \<Rightarrow>
             Some [char_of (p * 4 + q div 16), char_of ((q mod 16) * 16 + r div 4)]
         | _ \<Rightarrow> None)
      else
        (case (b64_index w, b64_index x, b64_index y, b64_index z) of
           (Some p, Some q, Some r, Some t) \<Rightarrow>
             (case decodeBase64 rest of
                None \<Rightarrow> None
              | Some bs \<Rightarrow>
                  Some (char_of (p * 4 + q div 16) # char_of ((q mod 16) * 16 + r div 4)
                        # char_of ((r mod 4) * 64 + t) # bs))
         | _ \<Rightarrow> None))"
| "decodeBase64 _ = None"

subsection \<open>Bulk content fetch\<close>

text \<open>\<^verbatim>\<open>results[index]\<close>: undefined out of range, which \<^verbatim>\<open>?.\<close> treats as null.\<close>

definition result_at :: "contents_item option list \<Rightarrow> nat \<Rightarrow> contents_item option" where
  "result_at results index = (if index < length results then results ! index else None)"

text \<open>The text of one file: decoded when there is content tagged base64, else empty.\<close>

definition file_text :: "contents_item option \<Rightarrow> js_error + string" where
  "file_text fileData =
     (case fileData of
        None \<Rightarrow> Inr []
      | Some d \<Rightarrow>
          if truthy (content d) \<and> encoding d = Some ''base64'' then
            (case decodeBase64 (tmpl (content d)) of
               None \<Rightarrow> Inl \<lparr>err_name = ''InvalidCharacterError'', err_message = [],
                           cause_message = None, cause_status = None\<rparr>
             | Some t \<Rightarrow> Inr t)
          else Inr [])"

definition parse_entry ::
  "contents_item option list \<Rightarrow> BaseFileListItem \<times> nat \<Rightarrow> js_error + (string \<times> file_contents)" where
  "parse_entry results fi =
     (case file_text (result_at results (snd fi)) of
        Inl e \<Rightarrow> Inl e
      | Inr t \<Rightarrow>
          Inr (item_path (fst fi),
               \<lparr>fc_sha = item_sha (fst fi),
                fc_size = (case item_size (fst fi) of None \<Rightarrow> 0 | Some n \<Rightarrow> n),
                fc_text = t\<rparr>))"

text \<open>\<^verbatim>\<open>Promise.all\<close>: the values in order, or the first rejection.\<close>

fun promise_all :: "(js_error + 'a) list \<Rightarrow> js_error + 'a list" where
  "promise_all [] = Inr []"
| "promise_all (Inl e # ps) = Inl e"
| "promise_all (Inr v # ps) = (case promise_all ps of Inl e \<Rightarrow> Inl e | Inr vs \<Rightarrow> Inr (v # vs))"

text \<open>\<^verbatim>\<open>Object.fromEntries\<close>: a later entry with the same key replaces an earlier one.\<close>

definition fromEntries :: "(string \<times> 'a) list \<Rightarrow> (string \<rightharpoonup> 'a)" where
  "fromEntries entries = map_of (rev entries)"

definition parseFileContents ::
  "BaseFileListItem list \<Rightarrow> contents_item option list \<Rightarrow> js_error + (string \<rightharpoonup> file_contents)" where
  "parseFileContents fetchingFiles results =
     (case promise_all
             (map (parse_entry results) (zip fetchingFiles [0 ..< length fetchingFiles])) of
        Inl e \<Rightarrow> Inl e
      | Inr entries \<Rightarrow> Inr (fromEntries entries))"

text \<open>
  \<^verbatim>\<open>Math.ceil(((allPaths.length - paths.length) / allPaths.length) * 100)\<close>. With no
  paths at all the quotient is 0/0, which is NaN.
\<close>

definition progress_percent :: "nat \<Rightarrow> nat \<Rightarrow> js_number" where
  "progress_percent completed len =
     (if len = 0 then (if completed = 0 then NaN else PosInfinity)
      else Finite (of_int \<lceil>(of_nat completed / of_nat len) * (100 :: rat)\<rceil>))"

text \<open>
  The loop of \<^verbatim>\<open>fetchFileContents\<close>: \<^verbatim>\<open>paths.splice(0, perPage)\<close> takes the next
  batch off the front of the remaining paths; the loop ends when none remain. With
  \<open>perPage = 0\<close> and paths remaining it runs for ever (\<open>None\<close>).
\<close>

partial_function (option) fetchFileContents_loop ::
  "server \<Rightarrow> string \<Rightarrow> string \<Rightarrow> string \<Rightarrow> nat \<Rightarrow> nat \<Rightarrow> string list
    \<Rightarrow> contents_item option list \<Rightarrow> gitea_state
    \<Rightarrow> ((js_error + contents_item option list) \<times> gitea_state) option" where
  "fetchFileContents_loop srv owner repo branch perPage len paths results s =
     (let files = take perPage paths;
          paths' = drop perPage paths;
          s1 = log_request (PostFileContents owner repo branch files) s
      in case file_contents_endpoint srv (requests s) owner repo branch files of
           Inl e \<Rightarrow> Some (Inl e, s1)
         | Inr result \<Rightarrow>
             let s2 = set_progress (Some (progress_percent (len - length paths') len)) s1
             in if paths' = [] then Some (Inr (results @ result), s2)
                else fetchFileContents_loop srv owner repo branch perPage len paths'
                       (results @ result) s2)"

definition fetchFileContents ::
  "server \<Rightarrow> BaseFileListItem list \<Rightarrow> gitea_state
    \<Rightarrow> ((js_error + (string \<rightharpoonup> file_contents)) \<times> gitea_state) option" where
  "fetchFileContents srv fetchingFiles s =
     (let owner = r_owner (repository s);
          repo = tmpl (r_repo (repository s));
          branch = tmpl (r_branch (repository s));
          allPaths = map item_path (filter (\<lambda>f. item_type f \<noteq> Some ''asset'') fetchingFiles);
          s1 = set_progress (Some (Finite 0)) s;
          s2 = log_request GetSettingsApi s1
      in case settings_endpoint srv (requests s1) of
           Inl e \<Rightarrow> Some (Inl e, s2)
         | Inr default_paging_num \<Rightarrow>
             let perPage = (case default_paging_num of None \<Rightarrow> 30 | Some n \<Rightarrow> n) in
             (case fetchFileContents_loop srv owner repo branch perPage (length allPaths)
                     allPaths [] s2 of
                None \<Rightarrow> None
              | Some (Inl e, s3) \<Rightarrow> Some (Inl e, s3)
              | Some (Inr results, s3) \<Rightarrow>
                  Some (parseFileContents fetchingFiles results, set_progress None s3)))"

subsection \<open>fetchFiles\<close>

text \<open>
  \<^verbatim>\<open>fetchAndParseFiles\<close> (shared/fetch.js) is not among the sources: it is a parameter
  that receives the four operations the backend hands to it.
\<close>

type_synonym 'a gitea_io = "gitea_state \<Rightarrow> ((js_error + 'a) \<times> gitea_state) option"

definition fetchFiles ::
  "i18n \<Rightarrow> (string \<Rightarrow> string) \<Rightarrow>
   (string gitea_io \<Rightarrow> (string \<times> string) gitea_io \<Rightarrow> (string option \<Rightarrow> BaseFileListItem list gitea_io)
      \<Rightarrow> (BaseFileListItem list \<Rightarrow> (string \<rightharpoonup> file_contents) gitea_io) \<Rightarrow> unit gitea_io)
   \<Rightarrow> server \<Rightarrow> unit gitea_io" where
  "fetchFiles tr basename fetchAndParseFiles srv s =
     (case checkGiteaVersion tr srv s of
        (Inl e, s1) \<Rightarrow> Some (Inl e, s1)
      | (Inr _, s1) \<Rightarrow>
          (case checkRepositoryAccess tr srv s1 of
             (Inl e, s2) \<Rightarrow> Some (Inl e, s2)
           | (Inr _, s2) \<Rightarrow>
               fetchAndParseFiles
                 (\<lambda>s. Some (fetchDefaultBranchName tr srv s))
                 (\<lambda>s. Some (fetchLastCommit tr srv s))
                 (fetchFileList basename srv)
                 (fetchFileContents srv)
                 s2))"

subsection \<open>commitChanges\<close>

definition toFileOperation :: "FileChange \<Rightarrow> file_operation" where
  "toFileOperation c =
     \<lparr>operation = (if change_action c = ''move'' then ''update'' else change_action c),
      op_path = change_path c,
      op_content = encodeBase64 (case change_data c of None \<Rightarrow> [] | Some d \<Rightarrow> d),
      from_path = previousPath c\<rparr>"

text \<open>
  \<^verbatim>\<open>createCommitMessage\<close> (shared/commits.js) and the clock (\<^verbatim>\<open>new Date().toJSON()\<close>)
  are parameters. Destructuring the \<^verbatim>\<open>user\<close> store throws a TypeError when nobody is
  signed in.
\<close>

definition commitChanges ::
  "(FileChange list \<Rightarrow> 'o \<Rightarrow> string) \<Rightarrow> string \<Rightarrow> server \<Rightarrow> FileChange list \<Rightarrow> 'o \<Rightarrow> gitea_state
    \<Rightarrow> (js_error + string) \<times> gitea_state" where
  "commitChanges createCommitMessage date srv changes options s =
     (let owner = r_owner (repository s);
          repo = tmpl (r_repo (repository s));
          branch = r_branch (repository s);
          commitMessage = createCommitMessage changes options
      in case user s of
           None \<Rightarrow> (Inl (new_TypeError ''Cannot destructure the user''), s)
         | Some u \<Rightarrow>
             let files = map toFileOperation changes;
                 body = \<lparr>body_branch = branch,
                         body_author = (u_name u, u_email u),
                         body_committer = (u_name u, u_email u),
                         body_dates = (date, date),
                         body_message = commitMessage,
                         body_files = files\<rparr>;
                 s1 = log_request (PostContents owner repo body) s
             in (contents_endpoint srv (requests s) owner repo body, s1))"

section \<open>Sign-in (auth.js)\<close>

subsection \<open>Values\<close>

text \<open>
  Cached users, the data of a sign-in link and the users a backend returns are plain
  JavaScript values. The keys of an object are distinct.
\<close>

datatype json =
    JNull
  | JBool bool
  | JNumber int
  | JString string
  | JArray "json list"
  | JObject "(string \<times> json) list"

text \<open>Truthiness of a value that may be undefined.\<close>

fun js_truthy :: "json option \<Rightarrow> bool" where
  "js_truthy None = False"
| "js_truthy (Some JNull) = False"
| "js_truthy (Some (JBool b)) = b"
| "js_truthy (Some (JNumber n)) = (n \<noteq> 0)"
| "js_truthy (Some (JString s)) = (s \<noteq> [])"
| "js_truthy (Some (JArray xs)) = True"
| "js_truthy (Some (JObject fs)) = True"




record sign_in_error =
  message :: string
  canRetry :: bool

text \<open>
  What the module does to the outside, oldest first: navigation, the two calls of the
  backend, and the line written to the console.
\<close>

datatype call =
    Goto string
  | CallSignIn "json option" "json option" bool
  | CallFetchFiles
  | ConsoleError string

text \<open>
  The stores the module reads and writes, the log of its calls, and the state of the
  world the backend works on.
\<close>

record 'w auth_state =
  user_store :: "json option"
  unauthenticated :: bool
  signInError :: sign_in_error
  backendName_store :: "string option"
  prefs :: "(string \<times> json) list"
  calls :: "call list"
  world :: 'w

text \<open>
  A backend service, as far as auth.js uses it. Its operations work on the world and
  on the \<^verbatim>\<open>user\<close> store (a token refresh writes the store); an operation that never
  settles returns \<open>None\<close>.
\<close>

record 'w backend_service =
  be_signIn ::
    "json option \<Rightarrow> json option \<Rightarrow> bool \<Rightarrow> json option \<times> 'w
      \<Rightarrow> ((js_error + json option) \<times> (json option \<times> 'w)) option"
  be_fetchFiles :: "json option \<times> 'w \<Rightarrow> ((js_error + unit) \<times> (json option \<times> 'w)) option"

definition log_call :: "call \<Rightarrow> 'w auth_state \<Rightarrow> 'w auth_state" where
  "log_call c s = s\<lparr>calls := calls s @ [c]\<rparr>"

definition run_backend ::
  "(json option \<times> 'w \<Rightarrow> ('a \<times> (json option \<times> 'w)) option) \<Rightarrow> 'w auth_state
    \<Rightarrow> ('a \<times> 'w auth_state) option" where
  "run_backend f s =
     (case f (user_store s, world s) of
        None \<Rightarrow> None
      | Some (r, (u, w)) \<Rightarrow> Some (r, s\<lparr>user_store := u, world := w\<rparr>))"

subsection \<open>logError\<close>

definition logError :: "i18n \<Rightarrow> js_error \<Rightarrow> 'w auth_state \<Rightarrow> 'w auth_state" where
  "logError tr ex s =
     (let message0 =
            (if truthy (cause_message ex) then tmpl (cause_message ex)
             else tr ''unexpected_error'' []);
          canRetry0 = False;
          message1 =
            (if err_name ex = ''NotFoundError'' then tr ''sign_in_error.not_project_root'' []
             else message0);
          canRetry1 = (if err_name ex = ''NotFoundError'' then True else canRetry0);
          message2 =
            (if err_name ex = ''AbortError'' then
               tr (if backendName_store s = Some ''local''
                   then ''sign_in_error.picker_dismissed''
                   else ''sign_in_error.authentication_aborted'') []
             else message1);
          canRetry2 = (if err_name ex = ''AbortError'' then True else canRetry1)
      in log_call (ConsoleError (err_message ex))
           (s\<lparr>signInError := \<lparr>message = message2, canRetry = canRetry2\<rparr>\<rparr>))"

subsection \<open>signInAutomatically\<close>








subsection \<open>signInManually\<close>

definition signInManually ::
  "i18n \<Rightarrow> (string \<Rightarrow> 'w backend_service option) \<Rightarrow> string \<Rightarrow> json option \<Rightarrow> 'w auth_state
    \<Rightarrow> ((js_error + unit) \<times> 'w auth_state) option" where
  "signInManually tr registry name token s =
     (let s1 = s\<lparr>backendName_store := Some name\<rparr> in
      case registry name of
        None \<Rightarrow> Some (Inr (), s1)
      | Some b \<Rightarrow>
          (case run_backend (be_signIn b token None False)
                  (log_call (CallSignIn token None False) s1) of
             None \<Rightarrow> None
           | Some (Inl ex, s2) \<Rightarrow> Some (Inr (), logError tr ex (s2\<lparr>unauthenticated := True\<rparr>))
           | Some (Inr u, s2) \<Rightarrow>
               let s3 = s2\<lparr>unauthenticated := \<not> js_truthy u\<rparr> in
               if \<not> js_truthy u then Some (Inr (), s3)
               else
                 (case run_backend (be_fetchFiles b)
                         (log_call CallFetchFiles (s3\<lparr>user_store := u\<rparr>)) of
                    None \<Rightarrow> None
                  | Some (Inr _, s4) \<Rightarrow>
                      Some (Inr (), s4\<lparr>signInError := \<lparr>message = [], canRetry = False\<rparr>\<rparr>)
                  | Some (Inl ex, s4) \<Rightarrow> Some (Inr (), logError tr ex s4))))"

section \<open>Provider behaviour and sample inputs\<close>

text \<open>
  The provider's side of the listing, which is no code of the program: the tree
  endpoint caps the entries of one response at a page size (1000 items per page, says
  the comment in \<^verbatim>\<open>fetchFileList\<close>) and flags a response as truncated while more
  entries remain. Page \<open>page\<close> (counted from 1) of a tree with page size \<open>P\<close>:
\<close>

definition pagedTree :: "git_entry list \<Rightarrow> nat \<Rightarrow> nat \<Rightarrow> tree_response" where
  "pagedTree entries P page =
     \<lparr>tree = take P (drop ((page - 1) * P) entries),
      truncated = (page * P < length entries)\<rparr>"



text \<open>The localisation that shows every key as it is (no dictionary loaded).\<close>

definition tr_key :: i18n where
  "tr_key key vs = key"

definition sample_state :: gitea_state where
  "sample_state =
     \<lparr>repository =
        \<lparr>r_service = ''gitea'', r_label = ''Gitea'', r_owner = ''alice'', r_repo = Some ''site'',
         r_branch = Some ''main'', r_baseURL = ''https://gitea.com/alice/site'',
         r_databaseName = ''gitea:alice/site'', r_isSelfHosted = False,
         r_treeBaseURL = ''https://gitea.com/alice/site/src/branch/main'',
         r_blobBaseURL = ''https://gitea.com/alice/site/src/branch/main''\<rparr>,
      apiConfig =
        \<lparr>clientId = [], authURL = ''https://gitea.com/login/oauth/authorize'',
         tokenURL = ''https://gitea.com/login/oauth/access_token'',
         origin = ''https://gitea.com'', restBaseURL = ''https://gitea.com/api/v1''\<rparr>,
      repositoryResponseCache = None,
      dataLoadedProgress = None,
      progressLog = [],
      requests = [],
      user = Some \<lparr>u_backendName = Some ''gitea'', u_name = Some ''Alice'',
                    u_email = Some ''alice@example.com'', u_token = Some ''t0'',
                    u_refreshToken = None\<rparr>\<rparr>"

text \<open>
  A provider that runs a supported version, grants every permission, serves the tree
  \<open>entries\<close> in pages of \<open>P\<close>, reports the batch limit \<open>B\<close> and answers every bulk
  request with the base64 of each path.
\<close>

definition sample_server :: "git_entry list \<Rightarrow> nat \<Rightarrow> nat option \<Rightarrow> server" where
  "sample_server entries P B =
     \<lparr>version_endpoint = (\<lambda>h. Inr ''1.24.0''),
      repo_endpoint =
        (\<lambda>h owner repo. Inr \<lparr>permissions_pull = Some True, default_branch = Some ''main''\<rparr>),
      branch_endpoint = (\<lambda>h owner repo branch. Inr (''4f2a'', ''first commit'')),
      tree_endpoint = (\<lambda>h owner repo ref page. Inr (pagedTree entries P page)),
      settings_endpoint = (\<lambda>h. Inr B),
      file_contents_endpoint =
        (\<lambda>h owner repo branch files.
           Inr (map (\<lambda>p. Some \<lparr>content = Some (encodeBase64 p), encoding = Some ''base64''\<rparr>)
                  files)),
      contents_endpoint =
        (\<lambda>h owner repo body. Inr ''https://gitea.com/alice/site/commit/4f2b'')\<rparr>"

definition http_error :: "nat \<Rightarrow> js_error" where
  "http_error status =
     \<lparr>err_name = ''Error'', err_message = ''Server responded with an error'',
      cause_message = None, cause_status = Some status\<rparr>"

definition sample_entry :: "string \<Rightarrow> string \<Rightarrow> git_entry" where
  "sample_entry ty p = \<lparr>entry_type = ty, entry_path = p, entry_sha = ''0a'', entry_size = 1\<rparr>"

definition sample_item :: "string \<Rightarrow> BaseFileListItem" where
  "sample_item p =
     \<lparr>item_path = p, item_sha = ''0a'', item_size = Some 1, item_name = p,
      item_type = Some ''entry''\<rparr>"

definition sample_auth_state :: "unit auth_state" where
  "sample_auth_state =
     \<lparr>user_store = None, unauthenticated = True,
      signInError = \<lparr>message = [], canRetry = False\<rparr>,
      backendName_store = None, prefs = [], calls = [], world = ()\<rparr>"

definition sample_config :: backend_config where
  "sample_config =
     \<lparr>cfg_name = ''gitea'', cfg_repo = Some ''alice/site'', cfg_branch = None,
      cfg_base_url = None, cfg_auth_endpoint = None, cfg_app_id = None, cfg_api_root = None\<rparr>"

definition sample_user :: json where
  "sample_user = JObject [(''backendName'', JString ''gitea''), (''token'', JString ''t0'')]"

text \<open>Three backends: one that works, one whose sign-in fails with HTTP 401, one whose
  \<^verbatim>\<open>fetchFiles\<close> fails with HTTP 401.\<close>

definition good_backend :: "unit backend_service" where
  "good_backend =
     \<lparr>be_signIn = (\<lambda>token refreshToken auto st. Some (Inr (Some sample_user), st)),
      be_fetchFiles = (\<lambda>st. Some (Inr (), st))\<rparr>"

definition backend_401_signIn :: "unit backend_service" where
  "backend_401_signIn =
     good_backend\<lparr>be_signIn := (\<lambda>token refreshToken auto st. Some (Inl (http_error 401), st))\<rparr>"


text \<open>Sample helpers for \<open>init\<close>: slashes stripped at both ends, and an origin for the
  URLs of gitea.com only.\<close>

definition strip_slashes :: "string \<Rightarrow> string" where
  "strip_slashes x =
     rev (dropWhile (\<lambda>c. c = CHR ''/'') (rev (dropWhile (\<lambda>c. c = CHR ''/'') x)))"

definition sample_origin :: "string \<Rightarrow> string option" where
  "sample_origin x = (if prefix ''https://gitea.com'' x then Some ''https://gitea.com'' else None)"





definition sample_move :: FileChange where
  "sample_move =
     \<lparr>change_action = ''move'', change_path = ''/b.md'', previousPath = Some ''/a.md'',
      change_data = Some ''hello''\<rparr>"

definition sample_registry :: "unit backend_service \<Rightarrow> string \<Rightarrow> unit backend_service option" where
  "sample_registry b n = (if n = ''gitea'' then Some b else None)"





text \<open>A provider whose bulk endpoint fails on every batch that holds c.md.\<close>

definition failing_server :: server where
  "failing_server =
     (sample_server [] 1000 (Some 2))
       \<lparr>file_contents_endpoint :=
          (\<lambda>h owner repo branch files.
             if ''c.md'' \<in> set files then Inl (http_error 500)
             else Inr (map (\<lambda>p. Some \<lparr>content = Some (encodeBase64 p), encoding = Some ''base64''\<rparr>)
                         files))\<rparr>"

section \<open>Properties\<close>

lemmas pf_defs = parseFloat_def parse_unsigned_def is_js_space_def is_digit_def digits_value_def
  scale10_def parse_exponent_def MIN_GITEA_VERSION_def

subsection \<open>Version check\<close>

text \<open>
  C5: whenever the version endpoint answers with a string that contains the marker
  \<^verbatim>\<open>+gitea-\<close>, \<open>checkGiteaVersion\<close> rejects with the error for an unsupported Forgejo,
  and so does \<open>fetchFiles\<close>, after the version request alone. The number the string
  starts with plays no part: the marker is looked for first.
\<close>

theorem forgejo_version_rejected:
  assumes "version_endpoint srv (requests s) = Inr version"
      and "str_includes version ''+gitea-''"
  shows "checkGiteaVersion tr srv s =
           (Inl (new_Error ''Unsupported Forgejo version'' (tr ''backend_unsupported_forgejo'' [])),
            log_request GetVersion s)
       \<and> fetchFiles tr basename fetchAndParseFiles srv s =
           Some (Inl (new_Error ''Unsupported Forgejo version''
                        (tr ''backend_unsupported_forgejo'' [])),
                 log_request GetVersion s)"
  using assms by (simp add: fetchFiles_def checkGiteaVersion_def)

text \<open>
  The version string of a Forgejo 11: its number, 11, is above the minimum 1.24, and the
  check rejects it all the same.
\<close>

theorem forgejo_version_rejected_witness:
  "str_includes ''11.0.1-46-17b3302+gitea-1.22.0'' ''+gitea-''
   \<and> parseFloat ''11.0.1-46-17b3302+gitea-1.22.0'' = Finite 11
   \<and> \<not> js_lt (parseFloat ''11.0.1-46-17b3302+gitea-1.22.0'') MIN_GITEA_VERSION
   \<and> fst (checkGiteaVersion tr_key
        ((sample_server [] 1000 None)\<lparr>version_endpoint := (\<lambda>h. Inr ''11.0.1-46-17b3302+gitea-1.22.0'')\<rparr>)
        sample_state) =
       Inl (new_Error ''Unsupported Forgejo version'' ''backend_unsupported_forgejo'')
   \<and> map_option fst (fetchFiles tr_key id (\<lambda>a b c d s. Some (Inr (), s))
        ((sample_server [] 1000 None)\<lparr>version_endpoint := (\<lambda>h. Inr ''11.0.1-46-17b3302+gitea-1.22.0'')\<rparr>)
        sample_state) =
       Some (Inl (new_Error ''Unsupported Forgejo version'' ''backend_unsupported_forgejo''))"
proof -
  have v: "version_endpoint ((sample_server [] 1000 None)\<lparr>version_endpoint := (\<lambda>h. Inr ''11.0.1-46-17b3302+gitea-1.22.0'')\<rparr>) (requests sample_state) = Inr ''11.0.1-46-17b3302+gitea-1.22.0''"
    by simp
  have m: "str_includes ''11.0.1-46-17b3302+gitea-1.22.0'' ''+gitea-''"
    by simp
  have p: "parseFloat ''11.0.1-46-17b3302+gitea-1.22.0'' = Finite 11"
    by (simp add: pf_defs)
  have l: "\<not> js_lt (Finite 11) MIN_GITEA_VERSION"
    by (simp add: MIN_GITEA_VERSION_def)
  show ?thesis
    using forgejo_version_rejected [OF v m, of tr_key id "\<lambda>a b c d s. Some (Inr (), s)"] m p l
    by (simp add: tr_key_def)
qed

subsection \<open>Access check\<close>




subsection \<open>Commit\<close>

text \<open>
  C7: with a user signed in, \<open>commitChanges\<close> sends one commit request, whose files are
  the changes in order; for every change with action move the file at the same position
  has operation update, the path of the change, and \<^verbatim>\<open>from_path\<close> equal to the
  \<^verbatim>\<open>previousPath\<close> of the change.
\<close>

theorem move_submitted_as_update:
  assumes "user s = Some u"
  shows "\<exists>body. requests (snd (commitChanges createCommitMessage date srv changes opts s)) =
             requests s @ [PostContents (r_owner (repository s)) (tmpl (r_repo (repository s))) body]
       \<and> length (body_files body) = length changes
       \<and> (\<forall>i < length changes. change_action (changes ! i) = ''move'' \<longrightarrow>
            operation (body_files body ! i) = ''update''
          \<and> op_path (body_files body ! i) = change_path (changes ! i)
          \<and> from_path (body_files body ! i) = previousPath (changes ! i))"
  using assms by (simp add: commitChanges_def Let_def log_request_def toFileOperation_def)

text \<open>The move of /a.md to /b.md is sent as an update of /b.md from /a.md.\<close>

theorem move_submitted_as_update_witness:
  "\<exists>body. requests (snd (commitChanges (\<lambda>cs opts. ''Move a.md'') ''2026-01-01T00:00:00.000Z''
              (sample_server [] 1000 None) [sample_move] () sample_state)) =
             [PostContents ''alice'' ''site'' body]
       \<and> map operation (body_files body) = [''update'']
       \<and> map op_path (body_files body) = [''/b.md'']
       \<and> map from_path (body_files body) = [Some ''/a.md'']"
proof -
  have u: "user sample_state = Some \<lparr>u_backendName = Some ''gitea'', u_name = Some ''Alice'',
                    u_email = Some ''alice@example.com'', u_token = Some ''t0'',
                    u_refreshToken = None\<rparr>"
    by (simp add: sample_state_def)
  from move_submitted_as_update [OF u, of "\<lambda>cs opts. ''Move a.md''" "''2026-01-01T00:00:00.000Z''"
      "sample_server [] 1000 None" "[sample_move]" "()"]
  obtain body where
    r: "requests (snd (commitChanges (\<lambda>cs opts. ''Move a.md'') ''2026-01-01T00:00:00.000Z''
              (sample_server [] 1000 None) [sample_move] () sample_state)) =
         requests sample_state @
           [PostContents (r_owner (repository sample_state))
              (tmpl (r_repo (repository sample_state))) body]"
    and l: "length (body_files body) = length [sample_move]"
    and m: "\<forall>i < length [sample_move]. change_action ([sample_move] ! i) = ''move'' \<longrightarrow>
            operation (body_files body ! i) = ''update''
          \<and> op_path (body_files body ! i) = change_path ([sample_move] ! i)
          \<and> from_path (body_files body ! i) = previousPath ([sample_move] ! i)"
    by (elim exE conjE)
  from l obtain f where f: "body_files body = [f]"
    by (cases "body_files body") simp_all
  have "change_action ([sample_move] ! 0) = ''move''"
    by (simp add: sample_move_def)
  with m have "operation (body_files body ! 0) = ''update''
          \<and> op_path (body_files body ! 0) = change_path ([sample_move] ! 0)
          \<and> from_path (body_files body ! 0) = previousPath ([sample_move] ! 0)"
    by simp
  with f have g: "operation f = ''update'' \<and> op_path f = ''/b.md'' \<and> from_path f = Some ''/a.md''"
    by (simp add: sample_move_def)
  have h: "requests sample_state = [] \<and> r_owner (repository sample_state) = ''alice''
        \<and> tmpl (r_repo (repository sample_state)) = ''site''"
    by (simp add: sample_state_def tmpl_def)
  show ?thesis
    using r f g h by (intro exI [of _ body]) simp
qed

subsection \<open>Initialisation\<close>

text \<open>
  C8: a second call of \<open>init\<close> with the same site configuration returns what the first
  call returned and leaves the state, so both singletons, as the first call left it.
\<close>

theorem init_idempotent:
  "init stripSlashes urlOrigin siteConfig (snd (init stripSlashes urlOrigin siteConfig s)) =
   init stripSlashes urlOrigin siteConfig s"
  by (simp add: init_def Let_def split: option.splits)

theorem init_idempotent_witness:
  "init strip_slashes sample_origin (Some sample_config)
     (snd (init strip_slashes sample_origin (Some sample_config) sample_state)) =
   init strip_slashes sample_origin (Some sample_config) sample_state
   \<and> fst (init strip_slashes sample_origin (Some sample_config) sample_state) =
       Inr (Some ((repository sample_state)
              \<lparr>r_branch := None, r_treeBaseURL := ''https://gitea.com/alice/site'',
               r_blobBaseURL := []\<rparr>))"
proof -
  have "fst (init strip_slashes sample_origin (Some sample_config) sample_state) =
       Inr (Some ((repository sample_state)
              \<lparr>r_branch := None, r_treeBaseURL := ''https://gitea.com/alice/site'',
               r_blobBaseURL := []\<rparr>))"
    by (simp add: init_def sample_config_def sample_origin_def sample_state_def backendName_def
        label_def DEFAULT_API_ROOT_def DEFAULT_AUTH_ROOT_def DEFAULT_AUTH_PATH_def getBaseURLs_def
        truthy_def tmpl_def strip_slashes_def Let_def)
  then show ?thesis
    using init_idempotent [of strip_slashes sample_origin "Some sample_config" sample_state]
    by simp
qed

subsection \<open>Sign-in\<close>

text \<open>
  C10: if the backend's \<open>signIn\<close> throws during a manual sign-in, \<open>signInManually\<close>
  returns normally with \<open>unauthenticated\<close> set, with the message of \<open>logError\<close> in
  \<open>signInError\<close> (the message of the cause, or the text for an unexpected error, or the
  text for a NotFoundError or an AbortError), and its only calls are the sign-in and the
  console line: \<open>fetchFiles\<close> is not called.
\<close>

theorem signInManually_signIn_throws:
  assumes "registry name = Some b"
      and "be_signIn b token None False (user_store s, world s) = Some (Inl ex, st)"
  shows "\<exists>s'. signInManually tr registry name token s = Some (Inr (), s')
       \<and> unauthenticated s'
       \<and> signInError s' =
           \<lparr>message =
              (if err_name ex = ''AbortError'' then
                 tr (if name = ''local'' then ''sign_in_error.picker_dismissed''
                     else ''sign_in_error.authentication_aborted'') []
               else if err_name ex = ''NotFoundError'' then tr ''sign_in_error.not_project_root'' []
               else if truthy (cause_message ex) then tmpl (cause_message ex)
               else tr ''unexpected_error'' []),
            canRetry = (err_name ex = ''AbortError'' \<or> err_name ex = ''NotFoundError'')\<rparr>
       \<and> calls s' = calls s @ [CallSignIn token None False, ConsoleError (err_message ex)]"
  using assms
  by (cases st) (simp add: signInManually_def Let_def run_backend_def log_call_def logError_def)

theorem signInManually_signIn_throws_witness:
  "\<exists>s'. signInManually tr_key (sample_registry backend_401_signIn) ''gitea''
           (Some (JString ''t0'')) sample_auth_state = Some (Inr (), s')
       \<and> unauthenticated s'
       \<and> signInError s' = \<lparr>message = ''unexpected_error'', canRetry = False\<rparr>
       \<and> calls s' = [CallSignIn (Some (JString ''t0'')) None False,
                      ConsoleError ''Server responded with an error'']"
proof -
  have 1: "sample_registry backend_401_signIn ''gitea'' = Some backend_401_signIn"
    by (simp add: sample_registry_def)
  have 2: "be_signIn backend_401_signIn (Some (JString ''t0'')) None False
             (user_store sample_auth_state, world sample_auth_state) =
           Some (Inl (http_error 401), (None, ()))"
    by (simp add: backend_401_signIn_def sample_auth_state_def)
  show ?thesis
    using signInManually_signIn_throws [where registry = "sample_registry backend_401_signIn"
        and name = "''gitea''" and b = backend_401_signIn and token = "Some (JString ''t0'')"
        and s = sample_auth_state and ex = "http_error 401" and st = "(None, ())" and tr = tr_key,
        OF 1 2]
    by (simp add: http_error_def tr_key_def truthy_def sample_auth_state_def)
qed



subsection \<open>Bulk content fetch\<close>

text \<open>The ceiling of a quotient of naturals, as a division.\<close>

lemma ceiling_div_nat:
  assumes "0 < (B::nat)"
  shows "nat \<lceil>(of_nat M :: rat) / of_nat B\<rceil> = (M + B - 1) div B"
proof -
  define z where "z = (M + B - 1) div B"
  have 1: "z * B \<le> M + B - 1"
    by (simp add: z_def)
  have 2: "M + B - 1 < B + z * B"
    using assms unfolding z_def by (rule dividend_less_div_times)
  have a: "M \<le> z * B"
    using 2 assms by linarith
  have b: "z * B < M + B"
    using 1 assms by linarith
  have "(of_nat M :: rat) \<le> of_nat (z * B)"
    using a by (simp only: of_nat_le_iff)
  then have c: "(of_nat M :: rat) / of_nat B \<le> of_int (int z)"
    using assms by (simp add: pos_divide_le_eq)
  have "(of_nat (z * B) :: rat) < of_nat (M + B)"
    using b by (simp only: of_nat_less_iff)
  then have "(of_nat z - 1) * (of_nat B :: rat) < of_nat M"
    by (simp add: algebra_simps)
  then have d: "of_int (int z) - 1 < (of_nat M :: rat) / of_nat B"
    using assms by (simp add: pos_less_divide_eq)
  have "\<lceil>(of_nat M :: rat) / of_nat B\<rceil> = int z"
    using d c by (rule ceiling_unique)
  then show ?thesis
    by (simp add: z_def)
qed













text \<open>
  C2, amended: when \<open>fetchFileContents\<close> returns normally, the store
  \<^verbatim>\<open>dataLoadedProgress\<close> is undefined, and undefined is the last value it was set to.
\<close>

theorem fetchFileContents_resets_progress:
  assumes "fetchFileContents srv fetchingFiles s = Some (Inr contents, s')"
  shows "dataLoadedProgress s' = None \<and> last (progressLog s') = None"
  using assms
  by (auto simp add: fetchFileContents_def Let_def set_progress_def
      split: sum.splits option.splits prod.splits)

theorem fetchFileContents_resets_progress_witness:
  "fetchFileContents (sample_server [] 1000 (Some 2)) [sample_item ''a.md''] sample_state
     = Some (Inr [''a.md'' \<mapsto> \<lparr>fc_sha = ''0a'', fc_size = 1, fc_text = ''a.md''\<rparr>],
         sample_state\<lparr>requests :=
              [GetSettingsApi, PostFileContents ''alice'' ''site'' ''main'' [''a.md'']],
           progressLog := [Some (Finite 0), Some (Finite 100), None],
           dataLoadedProgress := None\<rparr>)
   \<and> dataLoadedProgress
        (sample_state\<lparr>requests :=
              [GetSettingsApi, PostFileContents ''alice'' ''site'' ''main'' [''a.md'']],
           progressLog := [Some (Finite 0), Some (Finite 100), None],
           dataLoadedProgress := None\<rparr>) = None"
proof -
  have d: "decodeBase64 (encodeBase64 ''a.md'') = Some ''a.md''"
    by code_simp
  have e: "encodeBase64 ''a.md'' \<noteq> []"
    by code_simp
  have run: "fetchFileContents (sample_server [] 1000 (Some 2)) [sample_item ''a.md'']
      sample_state
     = Some (Inr [''a.md'' \<mapsto> \<lparr>fc_sha = ''0a'', fc_size = 1, fc_text = ''a.md''\<rparr>],
         sample_state\<lparr>requests :=
              [GetSettingsApi, PostFileContents ''alice'' ''site'' ''main'' [''a.md'']],
           progressLog := [Some (Finite 0), Some (Finite 100), None],
           dataLoadedProgress := None\<rparr>)"
    by (subst fetchFileContents_def, subst fetchFileContents_loop.simps)
      (simp add: sample_server_def sample_state_def sample_item_def Let_def set_progress_def
        log_request_def tmpl_def truthy_def progress_percent_def parseFileContents_def
        parse_entry_def result_at_def file_text_def fromEntries_def d e
        del: encodeBase64.simps)
  from fetchFileContents_resets_progress [OF run] run show ?thesis
    by simp
qed

text \<open>
  C2 as stated fails when a bulk request throws: the second batch of three files fails,
  \<open>fetchFileContents\<close> rejects, and the store keeps the 67 published after the first
  batch.
\<close>

theorem fetchFileContents_failure_counterexample:
  "map_option fst (fetchFileContents failing_server
       [sample_item ''a.md'', sample_item ''b.md'', sample_item ''c.md''] sample_state)
     = Some (Inl (http_error 500))
   \<and> map_option (dataLoadedProgress \<circ> snd) (fetchFileContents failing_server
       [sample_item ''a.md'', sample_item ''b.md'', sample_item ''c.md''] sample_state)
     = Some (Some (Finite 67))
   \<and> map_option (progressLog \<circ> snd) (fetchFileContents failing_server
       [sample_item ''a.md'', sample_item ''b.md'', sample_item ''c.md''] sample_state)
     = Some [Some (Finite 0), Some (Finite 67)]"
proof -
  have c: "\<lceil>(200 :: rat) / 3\<rceil> = 67"
    by (simp add: ceiling_eq_iff) 
  have run: "fetchFileContents failing_server
       [sample_item ''a.md'', sample_item ''b.md'', sample_item ''c.md''] sample_state
     = Some (Inl (http_error 500),
         sample_state\<lparr>requests :=
              [GetSettingsApi, PostFileContents ''alice'' ''site'' ''main'' [''a.md'', ''b.md''],
               PostFileContents ''alice'' ''site'' ''main'' [''c.md'']],
           progressLog := [Some (Finite 0), Some (Finite 67)],
           dataLoadedProgress := Some (Finite 67)\<rparr>)"
    by (subst fetchFileContents_def, subst fetchFileContents_loop.simps,
        subst fetchFileContents_loop.simps)
      (simp add: failing_server_def sample_server_def sample_state_def sample_item_def Let_def
        set_progress_def log_request_def tmpl_def progress_percent_def c
        del: encodeBase64.simps)
  show ?thesis
    unfolding run by simp
qed

subsection \<open>File listing\<close>

lemma pages_last:
  assumes "0 < (P::nat)" "(page - 1) * P < N" "N \<le> page * P" "0 < page"
  shows "(N + P - 1) div P = page"
proof (rule div_nat_eqI)
  have "page * P = (page - 1) * P + P"
    using assms(4) by (cases page) simp_all
  then show "P * page \<le> N + P - 1"
    using assms by (simp add: mult.commute)
  show "N + P - 1 < P * Suc page"
    using assms by (simp add: mult.commute)
qed

lemma pages_more:
  assumes "0 < (P::nat)" "page * P < N"
  shows "page < (N + P - 1) div P"
proof -
  have "Suc page * P \<le> N + P - 1"
    using assms by simp
  then have "Suc page \<le> (N + P - 1) div P"
    using assms(1) by (simp add: less_eq_div_iff_mult_less_eq)
  then show ?thesis
    by simp
qed

text \<open>
  The loop against a provider that serves a tree in pages of \<open>P \<ge> 1\<close>: from a page
  that starts inside the tree, it requests every page up to the last and collects the
  rest of the tree.
\<close>

lemma fetchFileList_loop_paged:
  assumes P: "0 < P"
      and srv: "\<forall>h page. tree_endpoint srv h owner repo ref page = Inr (pagedTree entries P page)"
  shows "0 < page \<Longrightarrow> (page - 1) * P < length entries \<Longrightarrow>
         fetchFileList_loop srv owner repo ref page acc s =
           Some (Inr (acc @ drop ((page - 1) * P) entries),
                 s\<lparr>requests := requests s @
                      map (GetTree owner repo ref)
                        [page ..< Suc ((length entries + P - 1) div P)]\<rparr>)"
proof (induction "length entries - page * P" arbitrary: page acc s rule: less_induct)
  case less
  let ?n = "(length entries + P - 1) div P"
  let ?s1 = "log_request (GetTree owner repo ref page) s"
  let ?tree = "take P (drop ((page - 1) * P) entries)"
  have resp: "tree_endpoint srv (requests s) owner repo ref page = Inr (pagedTree entries P page)"
    using srv by simp
  show ?case
  proof (cases "page * P < length entries")
    case True
    have m: "length entries - Suc page * P < length entries - page * P"
      using True P by simp
    have pos: "0 < Suc page"
      by simp
    have lt: "(Suc page - 1) * P < length entries"
      using True by simp
    have IH: "fetchFileList_loop srv owner repo ref (Suc page) (acc @ ?tree) ?s1 =
           Some (Inr ((acc @ ?tree) @ drop ((Suc page - 1) * P) entries),
                 ?s1\<lparr>requests := requests ?s1 @
                      map (GetTree owner repo ref) [Suc page ..< Suc ?n]\<rparr>)"
      using less.hyps [OF m pos lt] .
    have "page * P = P + (page - 1) * P"
      using less.prems(1) by (cases page) simp_all
    then have "drop ((Suc page - 1) * P) entries = drop P (drop ((page - 1) * P) entries)"
      by (simp add: add.commute)
    moreover have "?tree @ drop P (drop ((page - 1) * P) entries) = drop ((page - 1) * P) entries"
      by (rule append_take_drop_id)
    ultimately have join:
      "?tree @ drop ((Suc page - 1) * P) entries = drop ((page - 1) * P) entries"
      by (simp only:)
    have "page < ?n"
      using P True by (rule pages_more)
    then have range: "[page ..< Suc ?n] = page # [Suc page ..< Suc ?n]"
      by (simp add: upt_conv_Cons)
    have "fetchFileList_loop srv owner repo ref page acc s =
            fetchFileList_loop srv owner repo ref (Suc page) (acc @ ?tree) ?s1"
      using resp True
      by (subst fetchFileList_loop.simps) (simp add: Let_def pagedTree_def)
    then show ?thesis
      unfolding IH using join range by (simp add: log_request_def)
  next
    case False
    then have le: "length entries \<le> page * P"
      by simp
    have "?n = page"
      using P less.prems(2) le less.prems(1) by (rule pages_last)
    then have range: "[page ..< Suc ?n] = [page]"
      by simp
    have "page * P = P + (page - 1) * P"
      using less.prems(1) by (cases page) simp_all
    then have "length (drop ((page - 1) * P) entries) \<le> P"
      using le by simp
    then have all: "?tree = drop ((page - 1) * P) entries"
      by simp
    have "fetchFileList_loop srv owner repo ref page acc s = Some (Inr (acc @ ?tree), ?s1)"
      using resp False
      by (subst fetchFileList_loop.simps) (simp add: Let_def pagedTree_def)
    then show ?thesis
      using all range by (simp add: log_request_def)
  qed
qed

text \<open>With a page size of 0 and a tree that is not empty the loop never ends.\<close>

lemma fetchFileList_loop_zero_aux:
  assumes "fetchFileList_loop srv owner repo ref page acc s = Some y"
  shows "\<not> (entries \<noteq> [] \<and>
            (\<forall>h page. tree_endpoint srv h owner repo ref page = Inr (pagedTree entries 0 page)))"
proof (rule fetchFileList_loop.raw_induct
    [where P = "\<lambda>srv owner repo ref page acc s y.
       \<not> (entries \<noteq> [] \<and>
            (\<forall>h page. tree_endpoint srv h owner repo ref page = Inr (pagedTree entries 0 page)))",
     OF _ assms])
  fix loop srv owner repo ref page gitEntries s y
  assume IH: "\<And>srv owner repo ref page acc s y.
          loop srv owner repo ref page acc s = Some y \<Longrightarrow>
          \<not> (entries \<noteq> [] \<and>
            (\<forall>h page. tree_endpoint srv h owner repo ref page = Inr (pagedTree entries 0 page)))"
    and body: "(let s1 = log_request (GetTree owner repo ref page) s in
      case tree_endpoint srv (requests s) owner repo ref page of
        Inl e \<Rightarrow> Some (Inl e, s1)
      | Inr result \<Rightarrow>
          if truncated result
          then loop srv owner repo ref (page + 1) (gitEntries @ tree result) s1
          else Some (Inr (gitEntries @ tree result), s1)) = Some y"
  show "\<not> (entries \<noteq> [] \<and>
            (\<forall>h page. tree_endpoint srv h owner repo ref page = Inr (pagedTree entries 0 page)))"
  proof
    assume a: "entries \<noteq> [] \<and>
            (\<forall>h page. tree_endpoint srv h owner repo ref page = Inr (pagedTree entries 0 page))"
    with body
    have "loop srv owner repo ref (page + 1) (gitEntries @ tree (pagedTree entries 0 page))
            (log_request (GetTree owner repo ref page) s) = Some y"
      by (simp add: Let_def pagedTree_def)
    from IH [OF this] a show False
      by simp
  qed
qed

lemma fetchFileList_loop_zero:
  assumes "entries \<noteq> []"
      and "\<forall>h page. tree_endpoint srv h owner repo ref page = Inr (pagedTree entries 0 page)"
  shows "fetchFileList_loop srv owner repo ref page acc s = None"
proof (cases "fetchFileList_loop srv owner repo ref page acc s")
  case None
  then show ?thesis .
next
  case (Some y)
  from fetchFileList_loop_zero_aux [OF Some, of entries] assms show ?thesis
    by simp
qed

text \<open>
  C4, amended: for a tree of \<open>N \<ge> 1\<close> entries served in pages of \<open>P \<ge> 1\<close>,
  \<open>fetchFileList\<close> makes exactly \<open>\<lceil>N / P\<rceil>\<close> requests, for the pages 1 to \<open>\<lceil>N / P\<rceil>\<close> in
  order, and returns the blob entries of the tree, in the order of the tree, each as
  path, sha, size and name: as many items as the tree has blob entries, with the same
  set of paths.
\<close>

theorem fetchFileList_pages:
  assumes P: "0 < P"
      and N: "entries \<noteq> []"
      and ref: "ref = (case lastHash of None \<Rightarrow> tmpl (r_branch (repository s)) | Some h \<Rightarrow> h)"
      and srv: "\<forall>h page. tree_endpoint srv h (r_owner (repository s))
                  (tmpl (r_repo (repository s))) ref page = Inr (pagedTree entries P page)"
  shows "\<exists>items s'. fetchFileList basename srv lastHash s = Some (Inr items, s')
       \<and> requests s' = requests s @
           map (GetTree (r_owner (repository s)) (tmpl (r_repo (repository s))) ref)
             [1 ..< Suc (nat \<lceil>(of_nat (length entries) :: rat) / of_nat P\<rceil>)]
       \<and> items = map (toFileListItem basename) (filter (\<lambda>e. entry_type e = ''blob'') entries)
       \<and> set (map item_path items) =
           entry_path ` {e \<in> set entries. entry_type e = ''blob''}
       \<and> length items = length (filter (\<lambda>e. entry_type e = ''blob'') entries)"
proof -
  let ?n = "(length entries + P - 1) div P"
  have pos: "0 < (1::nat)"
    by simp
  have lt: "(1 - 1) * P < length entries"
    using N by simp
  have loop: "fetchFileList_loop srv (r_owner (repository s)) (tmpl (r_repo (repository s))) ref
                1 [] s =
           Some (Inr ([] @ drop ((1 - 1) * P) entries),
                 s\<lparr>requests := requests s @
                      map (GetTree (r_owner (repository s)) (tmpl (r_repo (repository s))) ref)
                        [1 ..< Suc ?n]\<rparr>)"
    using fetchFileList_loop_paged [OF P srv pos lt] .
  have n: "nat \<lceil>(of_nat (length entries) :: rat) / of_nat P\<rceil> = ?n"
    using P by (rule ceiling_div_nat)
  have run: "fetchFileList basename srv lastHash s =
      Some (Inr (map (toFileListItem basename) (filter (\<lambda>e. entry_type e = ''blob'') entries)),
            s\<lparr>requests := requests s @
                      map (GetTree (r_owner (repository s)) (tmpl (r_repo (repository s))) ref)
                        [1 ..< Suc ?n]\<rparr>)"
    using loop ref by (simp add: fetchFileList_def Let_def)
  have paths: "set (map item_path
                 (map (toFileListItem basename) (filter (\<lambda>e. entry_type e = ''blob'') entries))) =
           entry_path ` {e \<in> set entries. entry_type e = ''blob''}"
    by (auto simp add: toFileListItem_def)
  show ?thesis
    unfolding run n using paths by (simp add: image_image)
qed

text \<open>Three entries, one of them a directory, in pages of two: two requests, two files.\<close>

theorem fetchFileList_pages_witness:
  "\<exists>items s'. fetchFileList id
         (sample_server [sample_entry ''blob'' ''a.md'', sample_entry ''tree'' ''docs'',
                         sample_entry ''blob'' ''docs/b.md''] 2 None)
         None sample_state = Some (Inr items, s')
       \<and> requests s' = [GetTree ''alice'' ''site'' ''main'' 1, GetTree ''alice'' ''site'' ''main'' 2]
       \<and> map item_path items = [''a.md'', ''docs/b.md'']"
proof -
  let ?entries = "[sample_entry ''blob'' ''a.md'', sample_entry ''tree'' ''docs'',
                   sample_entry ''blob'' ''docs/b.md'']"
  let ?srv = "sample_server ?entries 2 None"
  have 1: "0 < (2::nat)"
    by simp
  have 2: "?entries \<noteq> []"
    by simp
  have 3: "''main'' = (case None of None \<Rightarrow> tmpl (r_branch (repository sample_state))
                       | Some h \<Rightarrow> h)"
    by (simp add: sample_state_def tmpl_def)
  have 4: "\<forall>h page. tree_endpoint ?srv h (r_owner (repository sample_state))
                  (tmpl (r_repo (repository sample_state))) ''main'' page
              = Inr (pagedTree ?entries 2 page)"
    by (simp add: sample_server_def)
  have 5: "nat \<lceil>(of_nat (length ?entries) :: rat) / of_nat 2\<rceil> = 2"
    using ceiling_div_nat [of 2 3] by simp
  have 6: "[1 ..< Suc 2] = [1, 2]"
    by (simp add: upt_conv_Cons)
  have 7: "requests sample_state = [] \<and> r_owner (repository sample_state) = ''alice''
        \<and> tmpl (r_repo (repository sample_state)) = ''site''"
    by (simp add: sample_state_def tmpl_def)
  from fetchFileList_pages [OF 1 2 3 4, of id]
  obtain items s' where
    a: "fetchFileList id ?srv None sample_state = Some (Inr items, s')"
    and b: "requests s' = requests sample_state @
           map (GetTree (r_owner (repository sample_state))
                  (tmpl (r_repo (repository sample_state))) ''main'')
             [1 ..< Suc (nat \<lceil>(of_nat (length ?entries) :: rat) / of_nat 2\<rceil>)]"
    and c: "items = map (toFileListItem id) (filter (\<lambda>e. entry_type e = ''blob'') ?entries)"
    by (elim exE conjE)
  have b': "requests s' = [GetTree ''alice'' ''site'' ''main'' 1, GetTree ''alice'' ''site'' ''main'' 2]"
    using b unfolding 5 6 by (simp add: 7)
  have c': "map item_path items = [''a.md'', ''docs/b.md'']"
    using c by (simp add: sample_entry_def toFileListItem_def)
  show ?thesis
    using a b' c' by (intro exI [of _ items] exI [of _ s']) simp
qed

text \<open>
  C4 as stated fails for an empty tree (one request, where \<open>\<lceil>0 / 1000\<rceil> = 0\<close>), for a
  tree with a directory (two entries, one file returned) and for a page size of 0
  (the loop never ends).
\<close>

theorem fetchFileList_pages_counterexample:
  "map_option (requests \<circ> snd) (fetchFileList id (sample_server [] 1000 None) None sample_state)
     = Some [GetTree ''alice'' ''site'' ''main'' 1]
   \<and> nat \<lceil>(of_nat (length ([] :: git_entry list)) :: rat) / of_nat 1000\<rceil> = 0
   \<and> map_option (map_sum id length \<circ> fst)
       (fetchFileList id
          (sample_server [sample_entry ''tree'' ''docs'', sample_entry ''blob'' ''docs/a.md'']
             1000 None)
          None sample_state)
     = Some (Inr 1)
   \<and> length [sample_entry ''tree'' ''docs'', sample_entry ''blob'' ''docs/a.md''] = 2
   \<and> fetchFileList id (sample_server [sample_entry ''blob'' ''a.md''] 0 None) None sample_state
     = None"
proof -
  have a: "fetchFileList id (sample_server [] 1000 None) None sample_state
     = Some (Inr [], sample_state\<lparr>requests := [GetTree ''alice'' ''site'' ''main'' 1]\<rparr>)"
    by (subst fetchFileList_def, subst fetchFileList_loop.simps)
      (simp add: sample_server_def sample_state_def Let_def log_request_def tmpl_def
        pagedTree_def)
  have b: "fetchFileList id
          (sample_server [sample_entry ''tree'' ''docs'', sample_entry ''blob'' ''docs/a.md'']
             1000 None)
          None sample_state
     = Some (Inr [toFileListItem id (sample_entry ''blob'' ''docs/a.md'')],
         sample_state\<lparr>requests := [GetTree ''alice'' ''site'' ''main'' 1]\<rparr>)"
    by (subst fetchFileList_def, subst fetchFileList_loop.simps)
      (simp add: sample_server_def sample_state_def Let_def log_request_def tmpl_def
        pagedTree_def sample_entry_def)
  have c: "fetchFileList id (sample_server [sample_entry ''blob'' ''a.md''] 0 None) None
      sample_state = None"
    by (simp add: fetchFileList_def Let_def sample_server_def
        fetchFileList_loop_zero [of "[sample_entry ''blob'' ''a.md'']"])
  show ?thesis
    unfolding a b c by simp
qed

subsection \<open>Base64\<close>

text \<open>Every sextet has its own character of the alphabet, none of them the padding.\<close>

lemma b64_index_char:
  assumes "n < 64"
  shows "b64_index (b64_char n) = Some n"
proof -
  consider "n < 26" | "26 \<le> n" "n < 52" | "52 \<le> n" "n < 62" | "n = 62" | "n = 63"
    using assms by linarith
  then show ?thesis
  proof cases
    case 1
    then have "b64_char n = char_of (n + 65)" by (simp add: b64_char_def)
    moreover have "(n + 65) mod 256 = n + 65" using 1 by simp
    ultimately show ?thesis using 1 by (simp add: b64_index_def Let_def)
  next
    case 2
    then have "b64_char n = char_of (n + 71)" by (simp add: b64_char_def)
    moreover have "(n + 71) mod 256 = n + 71" using 2 by simp
    ultimately show ?thesis using 2 by (simp add: b64_index_def Let_def)
  next
    case 3
    then have "b64_char n = char_of (n - 4)" by (simp add: b64_char_def)
    moreover have "(n - 4) mod 256 = n - 4" using 3 by simp
    ultimately show ?thesis using 3 by (simp add: b64_index_def Let_def) linarith
  next
    case 4
    then show ?thesis by (simp add: b64_char_def b64_index_def Let_def)
  next
    case 5
    then show ?thesis by (simp add: b64_char_def b64_index_def Let_def)
  qed
qed

lemma b64_char_not_pad:
  assumes "n < 64"
  shows "b64_char n \<noteq> CHR ''=''"
proof
  assume "b64_char n = CHR ''=''"
  then have "b64_index (b64_char n) = b64_index CHR ''=''"
    by simp
  then show False
    using b64_index_char [OF assms] by (simp add: b64_index_def)
qed

text \<open>Three bytes make four sextets, and the sextets give the bytes back.\<close>

lemma sextets:
  fixes x y z :: nat
  assumes "x < 256" "y < 256" "z < 256"
  shows "x div 4 < 64" "(x mod 4) * 16 + y div 16 < 64"
    "(y mod 16) * 4 + z div 64 < 64" "z mod 64 < 64"
proof -
  show "x div 4 < 64" using assms by simp
  have "x mod 4 \<le> 3" by simp
  moreover have "y div 16 \<le> 15" using assms by simp
  ultimately show "(x mod 4) * 16 + y div 16 < 64" by linarith
  have "y mod 16 \<le> 15" by simp
  moreover have "z div 64 \<le> 3" using assms by simp
  ultimately show "(y mod 16) * 4 + z div 64 < 64" by linarith
  show "z mod 64 < 64" by simp
qed

lemma octet1:
  fixes x y :: nat
  assumes "y < 256"
  shows "x div 4 * 4 + ((x mod 4) * 16 + y div 16) div 16 = x"
proof -
  have "y div 16 < 16" using assms by simp
  then have "((x mod 4) * 16 + y div 16) div 16 = x mod 4"
    by simp
  then show ?thesis by simp
qed

lemma octet2:
  fixes x y z :: nat
  assumes "y < 256" "z < 256"
  shows "((x mod 4) * 16 + y div 16) mod 16 * 16 + ((y mod 16) * 4 + z div 64) div 4 = y"
proof -
  have a: "y div 16 < 16" using assms by simp
  have b: "z div 64 < 4" using assms by simp
  have "((x mod 4) * 16 + y div 16) mod 16 = y div 16"
    using a by simp
  moreover have "((y mod 16) * 4 + z div 64) div 4 = y mod 16"
    using b by simp
  ultimately show ?thesis by simp
qed

lemma octet3:
  fixes y z :: nat
  assumes "z < 256"
  shows "((y mod 16) * 4 + z div 64) mod 4 * 64 + z mod 64 = z"
proof -
  have b: "z div 64 < 4" using assms by simp
  then have "((y mod 16) * 4 + z div 64) mod 4 = z div 64"
    by simp
  then show ?thesis by simp
qed

lemma decode_encode: "decodeBase64 (encodeBase64 t) = Some t"
proof (induction t rule: encodeBase64.induct)
  case 1
  show ?case by simp
next
  case (2 a)
  define x :: nat where "x = of_char a"
  have x: "x < 256"
    by (simp add: x_def)
  have s: "x div 4 < 64" "(x mod 4) * 16 + 0 div 16 < 64"
    using sextets [OF x, of 0 0] by simp_all
  have o: "x div 4 * 4 + ((x mod 4) * 16 + 0 div 16) div 16 = x"
    by (rule octet1) simp
  have "decodeBase64 [b64_char (x div 4), b64_char ((x mod 4) * 16), CHR ''='', CHR ''='']
          = Some [char_of x]"
    using s o by (simp add: b64_index_char)
  then show ?case
    by (simp add: Let_def x_def)
next
  case (3 a b)
  define x :: nat where "x = of_char a"
  define y :: nat where "y = of_char b"
  have x: "x < 256" and y: "y < 256"
    by (simp_all add: x_def y_def)
  have s: "x div 4 < 64" "(x mod 4) * 16 + y div 16 < 64" "(y mod 16) * 4 + 0 div 64 < 64"
    using sextets [OF x y, of 0] by simp_all
  have o1: "x div 4 * 4 + ((x mod 4) * 16 + y div 16) div 16 = x"
    using y by (rule octet1)
  have o2: "((x mod 4) * 16 + y div 16) mod 16 * 16 + ((y mod 16) * 4 + 0 div 64) div 4 = y"
    using y by (rule octet2) simp
  have p: "b64_char ((y mod 16) * 4) \<noteq> CHR ''=''"
    using s(3) by (intro b64_char_not_pad) simp
  have "decodeBase64 [b64_char (x div 4), b64_char ((x mod 4) * 16 + y div 16),
                      b64_char ((y mod 16) * 4), CHR ''='']
          = Some [char_of x, char_of y]"
    using s o1 o2 p by (simp add: b64_index_char)
  then show ?case
    by (simp add: Let_def x_def y_def)
next
  case (4 a b c rest)
  define x :: nat where "x = of_char a"
  define y :: nat where "y = of_char b"
  define z :: nat where "z = of_char c"
  have x: "x < 256" and y: "y < 256" and z: "z < 256"
    by (simp_all add: x_def y_def z_def)
  note s = sextets [OF x y z]
  have o1: "x div 4 * 4 + ((x mod 4) * 16 + y div 16) div 16 = x"
    using y by (rule octet1)
  have o2: "((x mod 4) * 16 + y div 16) mod 16 * 16 + ((y mod 16) * 4 + z div 64) div 4 = y"
    using y z by (rule octet2)
  have o3: "((y mod 16) * 4 + z div 64) mod 4 * 64 + z mod 64 = z"
    using z by (rule octet3)
  have p: "b64_char ((y mod 16) * 4 + z div 64) \<noteq> CHR ''=''" "b64_char (z mod 64) \<noteq> CHR ''=''"
    using s by (simp_all add: b64_char_not_pad)
  have "decodeBase64 (b64_char (x div 4) # b64_char ((x mod 4) * 16 + y div 16)
                      # b64_char ((y mod 16) * 4 + z div 64) # b64_char (z mod 64)
                      # encodeBase64 rest)
          = Some (char_of x # char_of y # char_of z # rest)"
    using s o1 o2 o3 p "4.IH" by (simp add: b64_index_char)
  then show ?case
    by (simp add: Let_def x_def y_def z_def)
qed

lemma encode_empty: "encodeBase64 t = [] \<longleftrightarrow> t = []"
  by (induction t rule: encodeBase64.induct) (simp_all add: Let_def)

text \<open>
  C9: decoding the encoding of any text gives the text back. The content that
  \<open>commitChanges\<close> puts in the commit request for a change, returned by the provider
  with the tag base64, is read by \<open>parseFileContents\<close> as the data of the change; the
  empty text, whose encoding is empty and so counts as no content, is read as the
  empty text.
\<close>

theorem base64_roundtrip:
  "decodeBase64 (encodeBase64 t) = Some t
   \<and> file_text (Some \<lparr>content = Some (op_content (toFileOperation c)),
                      encoding = Some ''base64''\<rparr>)
       = Inr (case change_data c of None \<Rightarrow> [] | Some d \<Rightarrow> d)
   \<and> parseFileContents [f]
         [Some \<lparr>content = Some (op_content (toFileOperation c)), encoding = Some ''base64''\<rparr>]
       = Inr [item_path f \<mapsto>
               \<lparr>fc_sha = item_sha f,
                fc_size = (case item_size f of None \<Rightarrow> 0 | Some n \<Rightarrow> n),
                fc_text = (case change_data c of None \<Rightarrow> [] | Some d \<Rightarrow> d)\<rparr>]"
proof -
  let ?d = "case change_data c of None \<Rightarrow> [] | Some d \<Rightarrow> d"
  let ?item = "\<lparr>content = Some (op_content (toFileOperation c)), encoding = Some ''base64''\<rparr>"
  have enc: "op_content (toFileOperation c) = encodeBase64 ?d"
    by (simp add: toFileOperation_def)
  have ft: "file_text (Some ?item) = Inr ?d"
    unfolding enc
    by (cases "?d = []") (simp_all add: file_text_def truthy_def tmpl_def decode_encode encode_empty
        del: encodeBase64.simps decodeBase64.simps)
  have "parse_entry [Some ?item] (f, 0) =
          Inr (item_path f,
               \<lparr>fc_sha = item_sha f,
                fc_size = (case item_size f of None \<Rightarrow> 0 | Some n \<Rightarrow> n),
                fc_text = ?d\<rparr>)"
    using ft by (simp add: parse_entry_def result_at_def)
  then have "parseFileContents [f] [Some ?item]
       = Inr [item_path f \<mapsto>
               \<lparr>fc_sha = item_sha f,
                fc_size = (case item_size f of None \<Rightarrow> 0 | Some n \<Rightarrow> n),
                fc_text = ?d\<rparr>]"
    by (simp add: parseFileContents_def fromEntries_def)
  with ft show ?thesis
    by (simp add: decode_encode)
qed

theorem base64_roundtrip_witness:
  "encodeBase64 ''hello'' = ''aGVsbG8=''
   \<and> decodeBase64 (encodeBase64 ''hello'') = Some ''hello''
   \<and> file_text (Some \<lparr>content = Some (op_content (toFileOperation sample_move)),
                      encoding = Some ''base64''\<rparr>) = Inr ''hello''
   \<and> decodeBase64 (encodeBase64 []) = Some []
   \<and> file_text (Some \<lparr>content = Some (op_content (toFileOperation
                        (sample_move\<lparr>change_data := Some []\<rparr>))),
                      encoding = Some ''base64''\<rparr>) = Inr []"
proof -
  have e: "encodeBase64 ''hello'' = ''aGVsbG8=''"
    by code_simp
  have d: "(case change_data sample_move of None \<Rightarrow> [] | Some d \<Rightarrow> d) = ''hello''"
    "(case change_data (sample_move\<lparr>change_data := Some []\<rparr>) of None \<Rightarrow> [] | Some d \<Rightarrow> d)
      = []"
    by (simp_all add: sample_move_def)
  show ?thesis
    using base64_roundtrip [of "''hello''" sample_move]
      base64_roundtrip [of "[]" "sample_move\<lparr>change_data := Some []\<rparr>"]
    unfolding d e by simp
qed

end
